theory Spec2Isabelle
  imports Complex_Main
begin

section \<open>The annotated example functions of \<open>examples/python/examples.py\<close>\<close>

text \<open>
  The payload file holds four functions, each under a block of \<open>@ai:*\<close> annotation
  comments. The three synchronous ones are embedded here as HOL functions. A Python
  \<open>float\<close> is modelled by a \<open>real\<close> and float arithmetic by exact arithmetic
  (no rounding, no overflow to \<open>inf\<close>, no \<open>OverflowError\<close>); a Python \<open>int\<close> is an
  \<open>int\<close>; a \<open>str\<close> is a \<open>string\<close>. An exception raised by the code is the \<open>Inl\<close>
  branch of a sum.
\<close>

datatype py_error = ValueError | ZeroDivisionError

subsection \<open>\<open>calculate_compound_interest\<close>\<close>

text \<open>
  \<^verbatim>\<open>x ** n\<close> for a float \<open>x\<close> and an int \<open>n\<close>: repeated multiplication for
  \<open>n \<ge> 0\<close> (so \<open>x ** 0 = 1.0\<close>, also for \<open>x = 0.0\<close>), the reciprocal of the positive
  power for \<open>n < 0\<close>, where a zero base raises \<open>ZeroDivisionError\<close>.
\<close>

definition float_pow :: "real \<Rightarrow> int \<Rightarrow> py_error + real" where
  "float_pow x n =
     (if 0 \<le> n then Inr (x ^ nat n)
      else if x = 0 then Inl ZeroDivisionError
      else Inr (1 / x ^ nat (- n)))"

text \<open>
  \<^verbatim>\<open>def calculate_compound_interest(principal, rate, years):
    return principal * (1 + rate) ** years\<close>
\<close>

definition calculate_compound_interest :: "real \<Rightarrow> real \<Rightarrow> int \<Rightarrow> py_error + real" where
  "calculate_compound_interest principal' rate years =
     (case float_pow (1 + rate) years of
        Inl e \<Rightarrow> Inl e
      | Inr p \<Rightarrow> Inr (principal' * p))"

subsection \<open>\<open>find_max\<close>\<close>

text \<open>
  The built-in \<^verbatim>\<open>max(iterable)\<close>: \<open>ValueError\<close> on an empty sequence; otherwise
  the first item is the running maximum and a later item replaces it when it is
  strictly greater.
\<close>

fun py_max :: "int list \<Rightarrow> py_error + int" where
  "py_max [] = Inl ValueError"
| "py_max (x # xs) = Inr (foldl (\<lambda>m v. if v > m then v else m) x xs)"

text \<open>\<^verbatim>\<open>def find_max(values): return max(values)\<close>\<close>

definition find_max :: "int list \<Rightarrow> py_error + int" where
  "find_max values = py_max values"

subsection \<open>\<open>is_valid_email\<close>\<close>

text \<open>
  \<^verbatim>\<open>s.split(sep)\<close> for a one-character separator: the pieces of \<open>s\<close> between the
  occurrences of \<open>sep\<close>, in order, empty pieces included; a string without the
  separator (also the empty string) gives the one-element list \<open>[s]\<close>. \<open>split_from\<close>
  scans left to right with the piece read so far.
\<close>

fun split_from :: "char \<Rightarrow> string \<Rightarrow> string \<Rightarrow> string list" where
  "split_from sep piece [] = [piece]"
| "split_from sep piece (c # cs) =
     (if c = sep then piece # split_from sep [] cs
      else split_from sep (piece @ [c]) cs)"

definition str_split :: "string \<Rightarrow> char \<Rightarrow> string list" where
  "str_split s sep = split_from sep [] s"

text \<open>
  \<^verbatim>\<open>def is_valid_email(email):
    if not email: return False
    parts = email.split('@')
    if len(parts) != 2: return False
    local, domain = parts
    return bool(local) and bool(domain) and '.' in domain\<close>
\<close>

definition is_valid_email :: "string \<Rightarrow> bool" where
  "is_valid_email email =
     (if email = [] then False
      else (let parts = str_split email CHR ''@'' in
            if length parts \<noteq> 2 then False
            else (case parts of
                    [local, domain] \<Rightarrow> local \<noteq> [] \<and> domain \<noteq> [] \<and> CHR ''.'' \<in> set domain
                  | _ \<Rightarrow> False)))"

section \<open>The contract model and the verifier\<close>

text \<open>
  The repository holds the annotated payload only; the engine that parses the
  annotation blocks and verifies each contract against its function is described by
  the specification and is not among the sources. The definitions of this section are
  written from the specification's text, and each says so.
\<close>

subsection \<open>Contracts\<close>

datatype effect = Pure | Io | Network | Mutation | Other_effect string

text \<open>
  Modelled from the spec: the \<open>Contract\<close> record of the data model (section 3), which
  the absent Annotation Parser builds. The expression text of a precondition is
  embedded as the predicate it denotes on the arguments \<open>'a\<close>, that of a postcondition
  as a predicate on the arguments and the result \<open>'r\<close>; an exception of the evaluator
  is the \<open>Inl\<close> branch. An example is the pair of its inputs and its expected output.
\<close>

record ('a, 'r) contract =
  intent :: "string option"
  preconditions :: "('a \<Rightarrow> py_error + bool) list"
  postconditions :: "('a \<Rightarrow> 'r \<Rightarrow> py_error + bool) list"
  examples :: "('a \<times> 'r) list"
  effects :: "effect set"
  idempotent :: "bool option"
  complexity :: "string option"
  confidence :: "real option"
  edge_cases :: "string list"
  needs_review :: "string option"
  assumptions :: "string list"

text \<open>
  Modelled from the spec: the configuration options of section 6 that the verifier
  reads, with their defaults (\<open>parallelism\<close> has no part in a sequential model).
\<close>

record config =
  dry_mode :: bool
  timeout_ms :: nat
  rtol :: real
  atol :: real

definition default_config :: config where
  "default_config = \<lparr>dry_mode = False, timeout_ms = 5000, rtol = 1 / 10 ^ 9, atol = 1 / 10 ^ 6\<rparr>"

text \<open>
  Modelled from the spec: the capability \<open>Invocable\<close> of section 9 through which the
  absent Execution Adapter calls a function. \<open>numeric\<close> reads a result as a number when
  it is one (a Python \<open>float\<close> or \<open>int\<close>): it stands for the evaluator's test of the
  dynamic type of an output.
\<close>

record ('a, 'r) invocable =
  call :: "'a \<Rightarrow> py_error + 'r"
  is_async :: bool
  numeric :: "'r \<Rightarrow> real option"

subsection \<open>Comparing an actual output with the expected one\<close>

text \<open>
  Modelled from the spec: the numeric equality of the absent Expression Evaluator
  (section 4.3), \<open>|a - b| <= atol + rtol * |b|\<close> for the actual output \<open>a\<close> and the
  expected output \<open>b\<close>.
\<close>

definition within_tolerance :: "config \<Rightarrow> real \<Rightarrow> real \<Rightarrow> bool" where
  "within_tolerance cfg a b = (\<bar>a - b\<bar> \<le> atol cfg + rtol cfg * \<bar>b\<bar>)"

text \<open>
  Modelled from the spec: the comparison of an example's outputs (section 4.3):
  numeric outputs under the tolerance, every other output by structural equality.
\<close>

definition outputs_match :: "config \<Rightarrow> ('r \<Rightarrow> real option) \<Rightarrow> 'r \<Rightarrow> 'r \<Rightarrow> bool" where
  "outputs_match cfg as_number actual expected =
     (case (as_number actual, as_number expected) of
        (Some a, Some b) \<Rightarrow> within_tolerance cfg a b
      | _ \<Rightarrow> actual = expected)"

subsection \<open>The verifier\<close>

datatype failure = Timeout | Raised py_error | Evaluator_failure py_error

datatype skip_reason = EffectfulSkip

text \<open>
  Modelled from the spec: the status of a \<open>VerificationOutcome\<close> (section 3). The
  warnings an outcome carries are left out.
\<close>

datatype status =
    Verified
  | PreconditionUnsatisfiable
  | ExampleMismatch nat
  | PostconditionViolated nat
  | ExecutionFailed failure
  | Skipped skip_reason

datatype 'r example_result = Accepted 'r | Mismatch 'r | Failed py_error

text \<open>
  Modelled from the spec: step 2 of the absent Verifier's algorithm (section 4.5) for
  one example: invoke the function on the inputs; a raised failure is reported;
  otherwise the actual output is compared with the expected one.
\<close>

definition run_example :: "config \<Rightarrow> ('a, 'r) invocable \<Rightarrow> 'a \<Rightarrow> 'r \<Rightarrow> 'r example_result" where
  "run_example cfg f args expected =
     (case call f args of
        Inl e \<Rightarrow> Failed e
      | Inr actual \<Rightarrow>
          if outputs_match cfg (numeric f) actual expected then Accepted actual
          else Mismatch actual)"

text \<open>
  Modelled from the spec: step 2 over the examples in their order, \<open>i\<close> the index of
  the first one: the first example that raises gives \<open>ExecutionFailed\<close>, the first
  mismatch \<open>ExampleMismatch i\<close>; when every example is accepted the inputs are returned
  with the actual results. (The spec still runs the examples after a mismatch, for
  diagnostics; they do not change the status, and the functions here have no effects.)
\<close>

fun run_examples ::
  "config \<Rightarrow> ('a, 'r) invocable \<Rightarrow> nat \<Rightarrow> ('a \<times> 'r) list \<Rightarrow> status + ('a \<times> 'r) list" where
  "run_examples cfg f i [] = Inr []"
| "run_examples cfg f i ((args, expected) # es) =
     (case run_example cfg f args expected of
        Failed e \<Rightarrow> Inl (ExecutionFailed (Raised e))
      | Mismatch actual \<Rightarrow> Inl (ExampleMismatch i)
      | Accepted actual \<Rightarrow>
          (case run_examples cfg f (Suc i) es of
             Inl s \<Rightarrow> Inl s
           | Inr runs \<Rightarrow> Inr ((args, actual) # runs)))"

text \<open>
  Modelled from the spec: an explicit example that violates a stated precondition
  gives \<open>PreconditionUnsatisfiable\<close> (section 4.5, step 4); an evaluator exception is an
  \<open>ExecutionFailed\<close> (section 7).
\<close>

fun check_preconditions :: "('a \<Rightarrow> py_error + bool) list \<Rightarrow> 'a \<Rightarrow> status option" where
  "check_preconditions [] args = None"
| "check_preconditions (p # ps) args =
     (case p args of
        Inl e \<Rightarrow> Some (ExecutionFailed (Evaluator_failure e))
      | Inr holds \<Rightarrow>
          if holds then check_preconditions ps args else Some PreconditionUnsatisfiable)"

fun examples_preconditions ::
  "('a \<Rightarrow> py_error + bool) list \<Rightarrow> ('a \<times> 'r) list \<Rightarrow> status option" where
  "examples_preconditions ps [] = None"
| "examples_preconditions ps ((args, expected) # es) =
     (case check_preconditions ps args of
        Some s \<Rightarrow> Some s
      | None \<Rightarrow> examples_preconditions ps es)"

text \<open>
  Modelled from the spec: step 3 of the algorithm: every postcondition, \<open>j\<close> the index
  of the first, on an example's inputs and actual result; the first that is false
  gives \<open>PostconditionViolated j\<close>, an evaluator exception \<open>ExecutionFailed\<close>.
\<close>

fun check_postconditions ::
  "nat \<Rightarrow> ('a \<Rightarrow> 'r \<Rightarrow> py_error + bool) list \<Rightarrow> 'a \<Rightarrow> 'r \<Rightarrow> status option" where
  "check_postconditions j [] args result = None"
| "check_postconditions j (q # qs) args result =
     (case q args result of
        Inl e \<Rightarrow> Some (ExecutionFailed (Evaluator_failure e))
      | Inr holds \<Rightarrow>
          if holds then check_postconditions (Suc j) qs args result
          else Some (PostconditionViolated j))"

fun examples_postconditions ::
  "('a \<Rightarrow> 'r \<Rightarrow> py_error + bool) list \<Rightarrow> ('a \<times> 'r) list \<Rightarrow> status option" where
  "examples_postconditions qs [] = None"
| "examples_postconditions qs ((args, result) # runs) =
     (case check_postconditions 0 qs args result of
        Some s \<Rightarrow> Some s
      | None \<Rightarrow> examples_postconditions qs runs)"

text \<open>
  Modelled from the spec: the Verifier's state machine for one contract (section 4.5),
  \<open>Pending\<close>, \<open>PreconditionsChecked\<close>, \<open>ExamplesRun\<close>, \<open>PostconditionsChecked\<close>,
  \<open>Verified\<close>, leaving at the first step that fails: the dry-mode skip of a contract
  whose effects exclude \<open>pure\<close>, the preconditions on each example's inputs, the
  examples, the postconditions.
\<close>

definition verify :: "config \<Rightarrow> ('a, 'r) invocable \<Rightarrow> ('a, 'r) contract \<Rightarrow> status" where
  "verify cfg f c =
     (if Pure \<notin> effects c \<and> dry_mode cfg then Skipped EffectfulSkip
      else case examples_preconditions (preconditions c) (examples c) of
             Some s \<Rightarrow> s
           | None \<Rightarrow>
               (case run_examples cfg f 0 (examples c) of
                  Inl s \<Rightarrow> s
                | Inr runs \<Rightarrow>
                    (case examples_postconditions (postconditions c) runs of
                       Some s \<Rightarrow> s
                     | None \<Rightarrow> Verified)))"

subsection \<open>Parsing an effects declaration\<close>

datatype diagnostic = Malformed_effects string

text \<open>
  Modelled from the spec: the payload of an \<open>@ai:effects\<close> line as the absent
  Annotation Parser reads it: effect names separated by commas (as in
  \<open>network, io\<close>), blanks around a name dropped.
\<close>

definition strip_blanks :: "string \<Rightarrow> string" where
  "strip_blanks s =
     rev (dropWhile (\<lambda>c. c = CHR '' '') (rev (dropWhile (\<lambda>c. c = CHR '' '') s)))"

definition effect_of_name :: "string \<Rightarrow> effect" where
  "effect_of_name n =
     (if n = ''pure'' then Pure
      else if n = ''io'' then Io
      else if n = ''network'' then Network
      else if n = ''mutation'' then Mutation
      else Other_effect n)"

definition declared_effects :: "string \<Rightarrow> effect set" where
  "declared_effects payload =
     set (map (\<lambda>n. effect_of_name (strip_blanks n)) (str_split payload CHR '',''))"

text \<open>
  Modelled from the spec: the invariant of section 3, \<open>pure\<close> is mutually exclusive
  with any other effect tag.
\<close>

definition effects_exclusive :: "effect set \<Rightarrow> bool" where
  "effects_exclusive es = (es = {Pure} \<or> Pure \<notin> es)"

text \<open>
  Modelled from the spec: a contract declaring both \<open>pure\<close> and any other effect is
  rejected at parse time with a diagnostic (section 8).
\<close>

definition parse_effects :: "string \<Rightarrow> diagnostic + effect set" where
  "parse_effects payload =
     (let es = declared_effects payload in
      if Pure \<in> es \<and> es \<noteq> {Pure} then Inl (Malformed_effects payload) else Inr es)"

subsection \<open>The contracts of the payload\<close>

text \<open>
  Modelled from the spec: how the absent Language Adapter presents the three
  synchronous functions of the payload to the verifier. A float and an int result are
  numeric, a bool result is compared structurally.
\<close>

definition cci_invocable :: "(real \<times> real \<times> int, real) invocable" where
  "cci_invocable =
     \<lparr>call = (\<lambda>(principal', rate, years). calculate_compound_interest principal' rate years),
      is_async = False,
      numeric = Some\<rparr>"

text \<open>
  The annotation block above \<open>calculate_compound_interest\<close> (lines 9 to 17 of the
  payload), as the contract it denotes. A float literal stands for its decimal value:
  \<open>0.05\<close> is \<open>5 / 100\<close> and \<open>1628.89\<close> is \<open>162889 / 100\<close>.
\<close>

definition cci_contract :: "(real \<times> real \<times> int, real) contract" where
  "cci_contract =
     \<lparr>intent = Some ''Calculate compound interest for a loan or investment'',
      preconditions =
        [\<lambda>(principal', rate, years). Inr (principal' > 0 \<and> rate \<ge> 0 \<and> years \<ge> 0)],
      postconditions = [\<lambda>(principal', rate, years) result. Inr (result \<ge> principal')],
      examples =
        [((1000, 5 / 100, 10), 162889 / 100),
         ((1000, 0, 5), 1000),
         ((500, 1 / 10, 1), 550)],
      effects = {Pure},
      idempotent = None,
      complexity = Some ''O(1)'',
      confidence = Some (95 / 100),
      edge_cases = [],
      needs_review = None,
      assumptions = []\<rparr>"

text \<open>
  The annotation block above \<open>find_max\<close> (lines 22 to 32). The second postcondition,
  \<open>result >= max(values)\<close>, calls the built-in \<open>max\<close> and raises where it does.
\<close>

definition find_max_invocable :: "(int list, int) invocable" where
  "find_max_invocable =
     \<lparr>call = find_max, is_async = False, numeric = (\<lambda>n. Some (real_of_int n))\<rparr>"

definition find_max_contract :: "(int list, int) contract" where
  "find_max_contract =
     \<lparr>intent = Some ''Find the maximum value in a non-empty list'',
      preconditions = [\<lambda>values. Inr (length values > 0)],
      postconditions =
        [\<lambda>values result. Inr (result \<in> set values),
         \<lambda>values result.
           (case py_max values of Inl e \<Rightarrow> Inl e | Inr m \<Rightarrow> Inr (result \<ge> m))],
      examples = [([1, 5, 3, 9, 2], 9), ([42], 42), ([-5, -2, -8], -2)],
      effects = {Pure},
      idempotent = None,
      complexity = Some ''O(n)'',
      confidence = None,
      edge_cases =
        [''single element -> returns that element'', ''all equal -> returns that value''],
      needs_review = None,
      assumptions = []\<rparr>"

text \<open>
  The annotation block above \<open>is_valid_email\<close> (lines 59 to 70). Its precondition
  \<open>email is not None\<close> holds of every string. Its postcondition is prose, \<open>result ==
  True implies '@' in email with text on both sides\<close>; it is read as: when the result
  is true, some \<open>@\<close> of the email is neither its first nor its last character.
\<close>

definition at_with_text_on_both_sides :: "string \<Rightarrow> bool" where
  "at_with_text_on_both_sides email = (CHR ''@'' \<in> set (butlast (tl email)))"

definition is_valid_email_invocable :: "(string, bool) invocable" where
  "is_valid_email_invocable =
     \<lparr>call = (\<lambda>email. Inr (is_valid_email email)), is_async = False, numeric = (\<lambda>b. None)\<rparr>"

definition is_valid_email_contract :: "(string, bool) contract" where
  "is_valid_email_contract =
     \<lparr>intent = Some ''Validate an email address format using basic rules'',
      preconditions = [\<lambda>email. Inr True],
      postconditions =
        [\<lambda>email result. Inr (if result then at_with_text_on_both_sides email else True)],
      examples =
        [(''user@example.com'', True),
         (''invalid-email'', False),
         (''@example.com'', False),
         (''user@'', False),
         ('''', False)],
      effects = {Pure},
      idempotent = None,
      complexity = Some ''O(n)'',
      confidence = Some (85 / 100),
      edge_cases = [],
      needs_review = Some ''Does not validate against RFC 5322, only basic format'',
      assumptions = []\<rparr>"

text \<open>
  The \<open>@ai:effects\<close> lines of the payload (lines 15, 29, 41 and 67), each with the name
  of the function it annotates.
\<close>

definition payload_effects :: "(string \<times> string) list" where
  "payload_effects =
     [(''calculate_compound_interest'', ''pure''),
      (''find_max'', ''pure''),
      (''post_json'', ''network, io''),
      (''is_valid_email'', ''pure'')]"

section \<open>Properties of the functions\<close>

subsection \<open>Compound interest\<close>

lemma float_pow_nonneg: "0 \<le> n \<Longrightarrow> float_pow x n = Inr (x ^ nat n)"
  by (simp add: float_pow_def)

lemma compound_factor_ge_one:
  fixes rate :: real
  assumes "0 \<le> rate"
  shows "1 \<le> (1 + rate) ^ k"
proof -
  from assms have "(1::real) \<le> 1 + rate" by simp
  then show ?thesis by (rule one_le_power)
qed

text \<open>
  Claim C5. Under the declared precondition \<open>principal > 0.0 and rate >= 0.0 and
  years >= 0\<close> the call returns (it raises nothing), the value returned is
  \<open>principal * (1 + rate) ** years\<close>, and it is at least \<open>principal\<close>: the declared
  postcondition \<open>result >= principal\<close> holds, in exact arithmetic.
\<close>

theorem calculate_compound_interest_post:
  assumes "0 < principal'" and "0 \<le> rate" and "0 \<le> years"
  shows "\<exists>result. calculate_compound_interest principal' rate years = Inr result
           \<and> result = principal' * (1 + rate) ^ nat years
           \<and> principal' \<le> result"
proof -
  have call: "calculate_compound_interest principal' rate years
                = Inr (principal' * (1 + rate) ^ nat years)"
    using assms(3) by (simp add: calculate_compound_interest_def float_pow_nonneg)
  have "principal' * 1 \<le> principal' * (1 + rate) ^ nat years"
    using assms(1) compound_factor_ge_one [OF assms(2)]
    by (intro mult_left_mono) simp_all
  with call show ?thesis by simp
qed

theorem calculate_compound_interest_post_witness:
  "(0::real) < 200 \<and> (0::real) \<le> 1 / 2 \<and> (0::int) \<le> 2
     \<and> calculate_compound_interest 200 (1 / 2) 2 = Inr 450
     \<and> (200::real) \<le> 450"
proof -
  from calculate_compound_interest_post [of 200 "1 / 2" 2]
  obtain result where "calculate_compound_interest 200 (1 / 2) 2 = Inr result"
    and "result = 200 * (1 + 1 / 2) ^ nat 2"
    by auto
  then show ?thesis by (simp add: power2_eq_square)
qed

subsection \<open>Maximum of a list\<close>

text \<open>The running maximum that \<open>py_max\<close> folds over the list is the greatest element.\<close>

lemma running_max_eq_Max:
  "foldl (\<lambda>m v. if v > m then v else m) (x::int) xs = Max (set (x # xs))"
proof -
  have "(\<lambda>m v. if v > m then v else m) = (\<lambda>m (v::int). max v m)"
    by (simp add: fun_eq_iff max_def)
  then have "foldl (\<lambda>m v. if v > m then v else m) x xs = fold max xs x"
    by (simp add: foldl_conv_fold)
  then show ?thesis by (simp only: Max.set_eq_fold)
qed

lemma find_max_Max: "values \<noteq> [] \<Longrightarrow> find_max values = Inr (Max (set values))"
  by (cases "values") (simp_all add: find_max_def running_max_eq_Max del: foldl_Cons set_simps)

lemma find_max_empty: "find_max [] = Inl ValueError"
  by (simp add: find_max_def)

text \<open>
  Claim C6. For every non-empty list of integers, \<open>find_max\<close> returns (no exception)
  an element of the list that is greater than or equal to every element, that is the
  maximum of the list. The two declared edge cases follow: a single-element list
  returns its element, and a list whose elements are all equal returns that value.
\<close>

theorem find_max_is_maximum:
  "(values \<noteq> [] \<longrightarrow>
      (\<exists>result. find_max values = Inr result
         \<and> result \<in> set values
         \<and> (\<forall>v \<in> set values. v \<le> result)
         \<and> result = Max (set values)))
   \<and> find_max [x] = Inr x
   \<and> find_max (replicate (Suc n) x) = Inr x"
proof (intro conjI impI)
  assume ne: "values \<noteq> []"
  then have "Max (set values) \<in> set values" by simp
  moreover have "\<forall>v \<in> set values. v \<le> Max (set values)" by simp
  ultimately show "\<exists>result. find_max values = Inr result
         \<and> result \<in> set values
         \<and> (\<forall>v \<in> set values. v \<le> result)
         \<and> result = Max (set values)"
    using find_max_Max [OF ne] by blast
next
  show "find_max [x] = Inr x" by (simp add: find_max_def)
next
  have "find_max (replicate (Suc n) x) = Inr (Max (set (replicate (Suc n) x)))"
    by (rule find_max_Max) simp
  also have "set (replicate (Suc n) x) = {x}" by (simp only: set_replicate_Suc)
  finally show "find_max (replicate (Suc n) x) = Inr x" by simp
qed

theorem find_max_is_maximum_witness:
  "[-5, -2, -8] \<noteq> ([]::int list)
     \<and> find_max [-5, -2, -8] = Inr (-2)
     \<and> (-2::int) \<in> set [-5, -2, -8]
     \<and> list_all (\<lambda>v. v \<le> (-2::int)) [-5, -2, -8]
     \<and> find_max [42] = Inr 42
     \<and> find_max (replicate (Suc 2) 42) = Inr 42"
  using find_max_is_maximum [of "[-5, -2, -8]" 42 2] by auto

subsection \<open>Splitting a string on a character\<close>

lemma split_from_not_Nil [simp]: "split_from sep piece s \<noteq> []"
  by (induction s arbitrary: piece) auto

lemma split_from_length: "length (split_from sep piece s) = Suc (count_list s sep)"
  by (induction s arbitrary: piece) auto

lemma split_from_one:
  "split_from sep piece s = [d] \<longleftrightarrow> d = piece @ s \<and> sep \<notin> set s"
  by (induction s arbitrary: piece) auto

lemma split_from_two:
  "split_from sep piece s = [l, d] \<longleftrightarrow>
     (\<exists>s1. s = s1 @ sep # d \<and> l = piece @ s1 \<and> sep \<notin> set s1 \<and> sep \<notin> set d)"
proof (induction s arbitrary: piece)
  case Nil
  then show ?case by simp
next
  case (Cons c cs)
  show ?case
  proof (cases "c = sep")
    case True
    have "(\<exists>s1. c # cs = s1 @ sep # d \<and> l = piece @ s1 \<and> sep \<notin> set s1 \<and> sep \<notin> set d)
            \<longleftrightarrow> (cs = d \<and> l = piece \<and> sep \<notin> set d)"
      using True by (auto simp: Cons_eq_append_conv)
    then show ?thesis using True by (auto simp: split_from_one)
  next
    case False
    have "(\<exists>s1. c # cs = s1 @ sep # d \<and> l = piece @ s1 \<and> sep \<notin> set s1 \<and> sep \<notin> set d)
            \<longleftrightarrow> (\<exists>s2. cs = s2 @ sep # d \<and> l = (piece @ [c]) @ s2
                          \<and> sep \<notin> set s2 \<and> sep \<notin> set d)"
      using False by (auto simp: Cons_eq_append_conv)
    then show ?thesis using False Cons.IH [of "piece @ [c]"] by simp
  qed
qed

text \<open>
  The split has as many pieces as the string has separators, plus one; it has exactly
  two pieces when the string is one piece, the separator and another piece, neither
  piece holding the separator.
\<close>

lemma str_split_length: "length (str_split s sep) = Suc (count_list s sep)"
  by (simp add: str_split_def split_from_length)

lemma str_split_two:
  "str_split s sep = [l, d] \<longleftrightarrow> s = l @ sep # d \<and> sep \<notin> set l \<and> sep \<notin> set d"
  by (auto simp: str_split_def split_from_two)

subsection \<open>Email validation\<close>

lemma is_valid_email_split:
  "is_valid_email email =
     (email \<noteq> [] \<and> (\<exists>local domain. str_split email CHR ''@'' = [local, domain]
               \<and> local \<noteq> [] \<and> domain \<noteq> [] \<and> CHR ''.'' \<in> set domain))"
  by (auto simp: is_valid_email_def Let_def split: list.splits)

text \<open>
  Read through \<open>str_split_two\<close>: a valid email is a non-empty local part, one \<open>@\<close>, and
  a domain without \<open>@\<close> that holds a dot.
\<close>

lemma is_valid_email_one_at:
  "is_valid_email email \<longleftrightarrow>
     (\<exists>local domain. email = local @ CHR ''@'' # domain
        \<and> CHR ''@'' \<notin> set local \<and> CHR ''@'' \<notin> set domain
        \<and> local \<noteq> [] \<and> domain \<noteq> [] \<and> CHR ''.'' \<in> set domain)"
  unfolding is_valid_email_split str_split_two by auto

text \<open>
  Claim C7. \<open>is_valid_email email\<close> is \<open>True\<close> exactly when \<open>email\<close> is non-empty, the
  split on \<open>@\<close> has exactly two parts, the part before and the part after the \<open>@\<close> are
  both non-empty, and the part after holds a dot. What the split is, is part of the
  statement: it has exactly two parts when the email holds exactly one \<open>@\<close>, and the
  two parts are then the text before and the text after that \<open>@\<close>; so the email is
  valid exactly when it is a non-empty local part, one \<open>@\<close>, and a non-empty domain
  without \<open>@\<close> that holds a dot. In particular the empty string, \<open>user@\<close> and
  \<open>invalid-email\<close> are rejected and \<open>user@example.com\<close> is accepted.
\<close>

theorem is_valid_email_iff:
  "is_valid_email email =
     (email \<noteq> [] \<and> length (str_split email CHR ''@'') = 2
        \<and> (\<exists>local domain. str_split email CHR ''@'' = [local, domain]
               \<and> local \<noteq> [] \<and> domain \<noteq> [] \<and> CHR ''.'' \<in> set domain))
   \<and> (length (str_split email CHR ''@'') = 2) = (count_list email CHR ''@'' = 1)
   \<and> (str_split email CHR ''@'' = [local, domain])
        = (email = local @ CHR ''@'' # domain
             \<and> CHR ''@'' \<notin> set local \<and> CHR ''@'' \<notin> set domain)
   \<and> is_valid_email email =
        (\<exists>local domain. email = local @ CHR ''@'' # domain
           \<and> CHR ''@'' \<notin> set local \<and> CHR ''@'' \<notin> set domain
           \<and> local \<noteq> [] \<and> domain \<noteq> [] \<and> CHR ''.'' \<in> set domain)
   \<and> is_valid_email [] = False
   \<and> is_valid_email ''user@'' = False
   \<and> is_valid_email ''invalid-email'' = False
   \<and> is_valid_email ''user@example.com'' = True"
proof (intro conjI)
  show "is_valid_email email =
     (email \<noteq> [] \<and> length (str_split email CHR ''@'') = 2
        \<and> (\<exists>local domain. str_split email CHR ''@'' = [local, domain]
               \<and> local \<noteq> [] \<and> domain \<noteq> [] \<and> CHR ''.'' \<in> set domain))"
    unfolding is_valid_email_split by auto
next
  show "(length (str_split email CHR ''@'') = 2) = (count_list email CHR ''@'' = 1)"
    by (simp add: str_split_length)
next
  show "(str_split email CHR ''@'' = [local, domain])
        = (email = local @ CHR ''@'' # domain
             \<and> CHR ''@'' \<notin> set local \<and> CHR ''@'' \<notin> set domain)"
    by (rule str_split_two)
next
  show "is_valid_email email =
        (\<exists>local domain. email = local @ CHR ''@'' # domain
           \<and> CHR ''@'' \<notin> set local \<and> CHR ''@'' \<notin> set domain
           \<and> local \<noteq> [] \<and> domain \<noteq> [] \<and> CHR ''.'' \<in> set domain)"
    by (rule is_valid_email_one_at)
qed (simp_all add: is_valid_email_def str_split_def)

section \<open>Verification of the declared examples\<close>

subsection \<open>The first example of \<open>calculate_compound_interest\<close>\<close>

lemma cci_first_example_value:
  "calculate_compound_interest 1000 (5 / 100) 10 = Inr (162889462677744140625 / 10 ^ 17)"
  by (simp add: calculate_compound_interest_def float_pow_def power_divide)

text \<open>
  Claim C1, as stated, fails: \<open>calculate_compound_interest(1000.0, 0.05, 10)\<close> returns
  \<open>1628.89462677744140625\<close> in exact arithmetic, and its distance from the declared
  output \<open>1628.89\<close> is not within \<open>atol + rtol * |1628.89|\<close> for \<open>atol = 1e-6\<close> and
  \<open>rtol = 1e-9\<close>.
\<close>

theorem cci_first_example_counterexample:
  "calculate_compound_interest 1000 (5 / 100) 10 = Inr (162889462677744140625 / 10 ^ 17)
   \<and> \<not> \<bar>162889462677744140625 / 10 ^ 17 - 162889 / 100\<bar>
          \<le> (1 / 10 ^ 6 + 1 / 10 ^ 9 * \<bar>162889 / 100\<bar> :: real)"
  by (intro conjI, rule cci_first_example_value) simp

text \<open>
  Claim C1, amended. The declared example \<open>(1000.0, 0.05, 10) -> 1628.89\<close> does not
  pass under the default tolerance: the call returns \<open>1628.89462677744140625\<close>, which
  differs from \<open>1628.89\<close> by \<open>0.00462677744140625\<close>, more than the default bound
  \<open>atol + rtol * |1628.89| = 0.00000262889\<close>. The example passes under tolerances
  \<open>a\<close> and \<open>r\<close> exactly when \<open>a + r * 1628.89\<close> is at least \<open>0.00462677744140625\<close>,
  as it is for \<open>a = 0.005\<close> and \<open>r = 0\<close> (agreement to the cent).
\<close>

theorem cci_first_example_tolerance:
  "calculate_compound_interest 1000 (5 / 100) 10 = Inr (162889462677744140625 / 10 ^ 17)
   \<and> \<bar>162889462677744140625 / 10 ^ 17 - 162889 / 100\<bar> = (462677744140625 / 10 ^ 17 :: real)
   \<and> (1 / 10 ^ 6 + 1 / 10 ^ 9 * \<bar>162889 / 100\<bar> :: real) = 262889 / 10 ^ 11
   \<and> (262889 / 10 ^ 11 :: real) < 462677744140625 / 10 ^ 17
   \<and> (\<bar>162889462677744140625 / 10 ^ 17 - 162889 / 100\<bar> \<le> a + r * \<bar>162889 / 100 :: real\<bar>)
        = (462677744140625 / 10 ^ 17 \<le> a + r * (162889 / 100))
   \<and> \<bar>162889462677744140625 / 10 ^ 17 - 162889 / 100\<bar>
        \<le> (5 / 1000 + 0 * \<bar>162889 / 100\<bar> :: real)"
  by (intro conjI, rule cci_first_example_value) simp_all

text \<open>
  On the modelled verifier the contract of \<open>calculate_compound_interest\<close> therefore
  ends in a mismatch at its first example.
\<close>

lemma cci_contract_status:
  "verify default_config cci_invocable cci_contract = ExampleMismatch 0"
  by (simp add: verify_def default_config_def cci_contract_def cci_invocable_def
      run_example_def outputs_match_def within_tolerance_def
      calculate_compound_interest_def float_pow_def power_divide)

subsection \<open>Acceptance of a numeric example\<close>

lemma within_tolerance_interval:
  "within_tolerance cfg a b
     = (b - (atol cfg + rtol cfg * \<bar>b\<bar>) \<le> a \<and> a \<le> b + (atol cfg + rtol cfg * \<bar>b\<bar>))"
  unfolding within_tolerance_def by (simp add: abs_le_iff) linarith

lemma run_example_cci:
  "run_example cfg cci_invocable (principal', rate, years) expected =
     (case calculate_compound_interest principal' rate years of
        Inl e \<Rightarrow> Failed e
      | Inr actual \<Rightarrow>
          if within_tolerance cfg actual expected then Accepted actual else Mismatch actual)"
  by (simp add: run_example_def cci_invocable_def outputs_match_def split: sum.splits)

text \<open>
  Claim C2. An example of \<open>calculate_compound_interest\<close> (its expected output a
  number) is accepted with the actual output \<open>actual\<close> exactly when the call returns
  \<open>actual\<close> and \<open>actual\<close> lies within \<open>atol + rtol * |expected|\<close> of the expected
  value, and it is rejected as a mismatch exactly when the call returns a value outside
  that range. The declared examples \<open>(1000.0, 0.0, 5) -> 1000.0\<close> and
  \<open>(500.0, 0.1, 1) -> 550.0\<close> are accepted under the default tolerance: the calls
  return \<open>1000\<close> and \<open>550\<close> in exact arithmetic.
\<close>

theorem cci_example_acceptance:
  "(run_example cfg cci_invocable (principal', rate, years) expected = Accepted actual)
      = (calculate_compound_interest principal' rate years = Inr actual
           \<and> expected - (atol cfg + rtol cfg * \<bar>expected\<bar>) \<le> actual
           \<and> actual \<le> expected + (atol cfg + rtol cfg * \<bar>expected\<bar>))
   \<and> (run_example cfg cci_invocable (principal', rate, years) expected = Mismatch actual)
      = (calculate_compound_interest principal' rate years = Inr actual
           \<and> \<not> \<bar>actual - expected\<bar> \<le> atol cfg + rtol cfg * \<bar>expected\<bar>)
   \<and> calculate_compound_interest 1000 0 5 = Inr 1000
   \<and> calculate_compound_interest 500 (1 / 10) 1 = Inr 550
   \<and> run_example default_config cci_invocable (1000, 0, 5) 1000 = Accepted 1000
   \<and> run_example default_config cci_invocable (500, 1 / 10, 1) 550 = Accepted 550"
proof (intro conjI)
  show "(run_example cfg cci_invocable (principal', rate, years) expected = Accepted actual)
      = (calculate_compound_interest principal' rate years = Inr actual
           \<and> expected - (atol cfg + rtol cfg * \<bar>expected\<bar>) \<le> actual
           \<and> actual \<le> expected + (atol cfg + rtol cfg * \<bar>expected\<bar>))"
    unfolding run_example_cci within_tolerance_interval [symmetric]
    by (auto split: sum.splits)
next
  show "(run_example cfg cci_invocable (principal', rate, years) expected = Mismatch actual)
      = (calculate_compound_interest principal' rate years = Inr actual
           \<and> \<not> \<bar>actual - expected\<bar> \<le> atol cfg + rtol cfg * \<bar>expected\<bar>)"
    unfolding run_example_cci within_tolerance_def [symmetric]
    by (auto split: sum.splits)
next
  show c2: "calculate_compound_interest 1000 0 5 = Inr 1000"
    by (simp add: calculate_compound_interest_def float_pow_def)
  show c3: "calculate_compound_interest 500 (1 / 10) 1 = Inr 550"
    by (simp add: calculate_compound_interest_def float_pow_def)
  show "run_example default_config cci_invocable (1000, 0, 5) 1000 = Accepted 1000"
    by (simp add: run_example_cci c2 within_tolerance_def default_config_def)
  show "run_example default_config cci_invocable (500, 1 / 10, 1) 550 = Accepted 550"
    by (simp add: run_example_cci c3 within_tolerance_def default_config_def)
qed

subsection \<open>The contract of \<open>find_max\<close>\<close>

text \<open>
  Claim C3. \<open>find_max([1, 5, 3, 9, 2])\<close> returns \<open>9\<close>; both declared postconditions,
  \<open>result in values\<close> and \<open>result >= max(values)\<close>, evaluate to true on these inputs and
  this result; and the verification of the contract under the default configuration
  ends in \<open>Verified\<close>.
\<close>

theorem find_max_contract_verified:
  "find_max [1, 5, 3, 9, 2] = Inr 9
   \<and> map (\<lambda>q. q [1, 5, 3, 9, 2] 9) (postconditions find_max_contract) = [Inr True, Inr True]
   \<and> verify default_config find_max_invocable find_max_contract = Verified"
  by (simp add: verify_def default_config_def find_max_contract_def find_max_invocable_def
      run_example_def outputs_match_def within_tolerance_def find_max_def)

subsection \<open>The contract of \<open>is_valid_email\<close>\<close>

text \<open>
  Claim C4. \<open>is_valid_email("@example.com")\<close> returns \<open>False\<close>, so the declared example
  (the third, index 2) is accepted; with that example changed to expect \<open>True\<close> the
  verification of the contract ends in \<open>ExampleMismatch 2\<close>.
\<close>

theorem is_valid_email_example_mismatch:
  "is_valid_email ''@example.com'' = False
   \<and> examples is_valid_email_contract ! 2 = (''@example.com'', False)
   \<and> run_example default_config is_valid_email_invocable ''@example.com'' False
        = Accepted False
   \<and> run_example default_config is_valid_email_invocable ''@example.com'' True
        = Mismatch False
   \<and> verify default_config is_valid_email_invocable
        (is_valid_email_contract
           \<lparr>examples := (examples is_valid_email_contract)[2 := (''@example.com'', True)]\<rparr>)
        = ExampleMismatch 2"
  by (simp add: verify_def default_config_def is_valid_email_contract_def
      is_valid_email_invocable_def run_example_def outputs_match_def
      is_valid_email_def str_split_def)

text \<open>As declared, the contract verifies, under the reading of its postcondition.\<close>

lemma is_valid_email_contract_status:
  "verify default_config is_valid_email_invocable is_valid_email_contract = Verified"
  by (simp add: verify_def default_config_def is_valid_email_contract_def
      is_valid_email_invocable_def run_example_def outputs_match_def
      is_valid_email_def str_split_def at_with_text_on_both_sides_def)

section \<open>Effects declarations\<close>

lemma parse_effects_payload:
  "map (\<lambda>(name, payload). parse_effects payload) payload_effects
     = [Inr {Pure}, Inr {Pure}, Inr {Network, Io}, Inr {Pure}]"
  by (simp add: payload_effects_def parse_effects_def declared_effects_def str_split_def
      strip_blanks_def effect_of_name_def Let_def)

lemma parse_effects_accepts:
  "parse_effects payload = Inr es \<Longrightarrow> effects_exclusive es"
  by (auto simp: parse_effects_def effects_exclusive_def Let_def split: if_splits)

lemma parse_effects_rejects:
  "Pure \<in> declared_effects payload \<Longrightarrow> declared_effects payload \<noteq> {Pure}
     \<Longrightarrow> parse_effects payload = Inl (Malformed_effects payload)"
  by (simp add: parse_effects_def Let_def)

text \<open>
  Claim C8. Each effects declaration of the payload parses to a set that is \<open>{pure}\<close>
  or holds no \<open>pure\<close>, and the three modelled contracts carry such a set. Whatever the
  payload, a set the parser accepts satisfies the invariant, and a declaration that
  names \<open>pure\<close> together with another effect is rejected with a diagnostic.
\<close>

theorem effects_exclusivity:
  "list_all (\<lambda>(name, payload). \<exists>es. parse_effects payload = Inr es \<and> effects_exclusive es)
      payload_effects
   \<and> effects_exclusive (effects cci_contract)
   \<and> effects_exclusive (effects find_max_contract)
   \<and> effects_exclusive (effects is_valid_email_contract)
   \<and> (\<forall>es. parse_effects payload = Inr es \<longrightarrow> effects_exclusive es)
   \<and> (Pure \<in> declared_effects payload \<and> declared_effects payload \<noteq> {Pure}
        \<longrightarrow> (\<exists>d. parse_effects payload = Inl d))"
proof (intro conjI)
  have "list_all (\<lambda>r. \<exists>es. r = Inr es \<and> effects_exclusive es)
          (map (\<lambda>(name, payload). parse_effects payload) payload_effects)"
    unfolding parse_effects_payload by (simp add: effects_exclusive_def)
  then show "list_all (\<lambda>(name, payload). \<exists>es. parse_effects payload = Inr es \<and> effects_exclusive es)
      payload_effects"
    by (simp add: list_all_iff split_beta)
next
  show "effects_exclusive (effects cci_contract)"
    by (simp add: effects_exclusive_def cci_contract_def)
next
  show "effects_exclusive (effects find_max_contract)"
    by (simp add: effects_exclusive_def find_max_contract_def)
next
  show "effects_exclusive (effects is_valid_email_contract)"
    by (simp add: effects_exclusive_def is_valid_email_contract_def)
next
  show "\<forall>es. parse_effects payload = Inr es \<longrightarrow> effects_exclusive es"
    by (simp add: parse_effects_accepts)
next
  show "Pure \<in> declared_effects payload \<and> declared_effects payload \<noteq> {Pure}
        \<longrightarrow> (\<exists>d. parse_effects payload = Inl d)"
    by (simp add: parse_effects_rejects)
qed

theorem effects_exclusivity_witness:
  "Pure \<in> declared_effects ''pure, io''
   \<and> declared_effects ''pure, io'' \<noteq> {Pure}
   \<and> parse_effects ''pure, io'' = Inl (Malformed_effects ''pure, io'')
   \<and> parse_effects ''network, io'' = Inr {Network, Io}
   \<and> effects_exclusive {Network, Io}"
proof -
  have d: "declared_effects ''pure, io'' = {Pure, Io}"
    by (simp add: declared_effects_def str_split_def strip_blanks_def effect_of_name_def)
  have p: "parse_effects ''network, io'' = Inr {Network, Io}"
    by (simp add: parse_effects_def declared_effects_def str_split_def strip_blanks_def
        effect_of_name_def Let_def)
  from effects_exclusivity [of "''pure, io''"] d
  have "\<exists>d. parse_effects ''pure, io'' = Inl d" by auto
  then have r: "parse_effects ''pure, io'' = Inl (Malformed_effects ''pure, io'')"
    by (auto simp: parse_effects_def Let_def split: if_splits)
  from effects_exclusivity [of "''network, io''"] p
  have "effects_exclusive {Network, Io}" by simp
  with d p r show ?thesis by auto
qed

end
